theory Spec2Isabelle
  imports Main "HOL-Library.Multiset"
begin

section \<open>Data model\<close>

text \<open>
  A value of a field of a JSON request body, as the route layer sees it after
  \<^verbatim>\<open>const { title, description, status } = req.body\<close>: the field is absent
  (JavaScript \<^verbatim>\<open>undefined\<close>), \<^verbatim>\<open>null\<close>, or a string. The API schema of
  \<^verbatim>\<open>routes/tasks.js\<close> declares the three fields with \<^verbatim>\<open>type: string\<close>;
  numbers, booleans, arrays and objects in these fields are outside the model.
\<close>

datatype jsval = JUndefined | JNull | JString string

text \<open>JavaScript truthiness, as used by \<^verbatim>\<open>if (!title)\<close>.\<close>

fun truthy :: "jsval \<Rightarrow> bool" where
  "truthy JUndefined = False"
| "truthy JNull = False"
| "truthy (JString s) = (s \<noteq> [])"

text \<open>
  Modelled from the spec: the \<^verbatim>\<open>tasks\<close> table is declared outside the route
  layer. A row has the six columns of the Task entity: \<^verbatim>\<open>id\<close> (here
  \<open>task_id\<close>, since \<open>id\<close> is the identity function of HOL), \<^verbatim>\<open>title\<close>,
  \<^verbatim>\<open>description\<close>, \<^verbatim>\<open>status\<close>, \<^verbatim>\<open>created_at\<close> and \<^verbatim>\<open>updated_at\<close>.
  The three text columns hold SQL NULL (\<open>None\<close>) or a text; a timestamp is a
  reading of the storage clock.
\<close>

record task =
  task_id :: nat
  title :: "string option"
  description :: "string option"
  status :: "string option"
  created_at :: nat
  updated_at :: nat

text \<open>The body of a create or update request: the three fields the handlers read.\<close>

record req_body =
  body_title :: jsval
  body_description :: jsval
  body_status :: jsval

text \<open>
  Modelled from the spec: the storage accessor \<^verbatim>\<open>db\<close> (\<^verbatim>\<open>config/database\<close>)
  "executes parameterized SQL and returns row sets". The storage is the table in
  insertion order, the counter from which the next \<^verbatim>\<open>id\<close> is assigned, and
  \<open>fault\<close>: the message of the exception every statement raises while the
  storage is failing (\<open>None\<close> when it works).
\<close>

record storage =
  rows :: "task list"
  auto_increment :: nat
  fault :: "string option"

text \<open>The header \<^verbatim>\<open>db.execute\<close> returns for INSERT, UPDATE and DELETE.\<close>

record result_header =
  insertId :: nat
  affectedRows :: nat

text \<open>What a handler sends: the HTTP status and the JSON body.\<close>

datatype json_body =
    TaskJson task
  | TaskListJson "task list"
  | ErrorJson string
  | MessageJson string
  | NoJson

type_synonym response = "nat \<times> json_body"

section \<open>Storage accessor\<close>

text \<open>
  Modelled from the spec: a bound parameter that the request did not supply is
  "written as absent/null"; a string is written as it is.
\<close>

fun bind_param :: "jsval \<Rightarrow> string option" where
  "bind_param JUndefined = None"
| "bind_param JNull = None"
| "bind_param (JString s) = Some s"

text \<open>
  Modelled from the spec: what the storage accessor returns for
  \<^verbatim>\<open>SELECT * FROM tasks ORDER BY created_at DESC\<close>, the rows "ordered by
  \<^verbatim>\<open>created_at\<close> descending". SQL leaves the order of rows with equal
  \<^verbatim>\<open>created_at\<close> to the engine; the model keeps them in storage order (a
  stable sort).
\<close>

definition select_all :: "storage \<Rightarrow> string + task list" where
  "select_all db =
     (case fault db of
        Some e \<Rightarrow> Inl e
      | None \<Rightarrow> Inr (sort_key (\<lambda>r. - int (created_at r)) (rows db)))"

text \<open>
  Modelled from the spec: what the storage accessor returns for
  \<^verbatim>\<open>SELECT * FROM tasks WHERE id = ?\<close>, the rows with the id. The id of the
  path (\<^verbatim>\<open>req.params.id\<close>) is taken as the number the storage compares with
  the column.
\<close>

definition select_by_id :: "storage \<Rightarrow> nat \<Rightarrow> string + task list" where
  "select_by_id db i =
     (case fault db of
        Some e \<Rightarrow> Inl e
      | None \<Rightarrow> Inr (filter (\<lambda>r. task_id r = i) (rows db)))"

text \<open>
  Modelled from the spec: what the storage accessor does for
  \<^verbatim>\<open>INSERT INTO tasks (title, description, status) VALUES (?, ?, ?)\<close> at clock
  reading \<open>now\<close>. The storage "assigns an id" and computes both timestamps;
  the header carries the id as \<^verbatim>\<open>insertId\<close>.
\<close>

definition insert_task ::
  "storage \<Rightarrow> nat \<Rightarrow> jsval \<Rightarrow> jsval \<Rightarrow> jsval \<Rightarrow> string + (storage \<times> result_header)" where
  "insert_task db now t d s =
     (case fault db of
        Some e \<Rightarrow> Inl e
      | None \<Rightarrow>
          Inr (db\<lparr>rows := rows db @
                    [\<lparr>task_id = auto_increment db, title = bind_param t,
                      description = bind_param d, status = bind_param s,
                      created_at = now, updated_at = now\<rparr>],
                  auto_increment := auto_increment db + 1\<rparr>,
               \<lparr>insertId = auto_increment db, affectedRows = 1\<rparr>))"

text \<open>
  Modelled from the spec: what the storage accessor does for
  \<^verbatim>\<open>UPDATE tasks SET title = ?, description = ?, status = ? WHERE id = ?\<close> at
  clock reading \<open>now\<close>. All three columns of every row with the id are
  written; \<^verbatim>\<open>updated_at\<close> is "refreshed whenever any mutable field changes";
  \<^verbatim>\<open>affectedRows\<close> counts the rows the WHERE clause matched ("if no row
  matches \<^verbatim>\<open>id\<close>, signals NotFound").
\<close>

definition write_row :: "nat \<Rightarrow> jsval \<Rightarrow> jsval \<Rightarrow> jsval \<Rightarrow> task \<Rightarrow> task" where
  "write_row now t d s r =
     r\<lparr>title := bind_param t, description := bind_param d, status := bind_param s,
       updated_at :=
         (if title r = bind_param t \<and> description r = bind_param d \<and> status r = bind_param s
          then updated_at r else now)\<rparr>"

definition update_task ::
  "storage \<Rightarrow> nat \<Rightarrow> jsval \<Rightarrow> jsval \<Rightarrow> jsval \<Rightarrow> nat \<Rightarrow> string + (storage \<times> result_header)" where
  "update_task db now t d s i =
     (case fault db of
        Some e \<Rightarrow> Inl e
      | None \<Rightarrow>
          Inr (db\<lparr>rows := map (\<lambda>r. if task_id r = i then write_row now t d s r else r) (rows db)\<rparr>,
               \<lparr>insertId = 0, affectedRows = length (filter (\<lambda>r. task_id r = i) (rows db))\<rparr>))"

text \<open>
  Modelled from the spec: what the storage accessor does for
  \<^verbatim>\<open>DELETE FROM tasks WHERE id = ?\<close>, a hard delete of the rows with the id;
  \<^verbatim>\<open>affectedRows\<close> counts them.
\<close>

definition delete_from :: "storage \<Rightarrow> nat \<Rightarrow> string + (storage \<times> result_header)" where
  "delete_from db i =
     (case fault db of
        Some e \<Rightarrow> Inl e
      | None \<Rightarrow>
          Inr (db\<lparr>rows := filter (\<lambda>r. task_id r \<noteq> i) (rows db)\<rparr>,
               \<lparr>insertId = 0, affectedRows = length (filter (\<lambda>r. task_id r = i) (rows db))\<rparr>))"

text \<open>The storage before any request: no rows, ids from 1.\<close>

definition empty_storage :: storage where
  "empty_storage = \<lparr>rows = [], auto_increment = 1, fault = None\<rparr>"

section \<open>Task resource handler (routes/tasks.js)\<close>

text \<open>
  Each handler is the body of its \<^verbatim>\<open>try\<close> block; an exception of the storage
  accessor (\<open>Inl\<close>) is the \<^verbatim>\<open>catch\<close> branch, status 500 with the message.
  A handler takes the storage and, where a statement reads the clock, the clock
  reading of the request; it returns the storage it leaves and the response.
  \<^verbatim>\<open>rows[0]\<close> of an empty row set is \<^verbatim>\<open>undefined\<close>, sent as an empty body
  (\<open>NoJson\<close>).
\<close>

definition first_row :: "task list \<Rightarrow> json_body" where
  "first_row rs = (case rs of [] \<Rightarrow> NoJson | r # _ \<Rightarrow> TaskJson r)"

text \<open>\<^verbatim>\<open>router.get('/')\<close>\<close>

definition get_tasks :: "storage \<Rightarrow> response" where
  "get_tasks db =
     (case select_all db of
        Inl e \<Rightarrow> (500, ErrorJson e)
      | Inr rs \<Rightarrow> (200, TaskListJson rs))"

text \<open>\<^verbatim>\<open>router.get('/:id')\<close>\<close>

definition get_task :: "storage \<Rightarrow> nat \<Rightarrow> response" where
  "get_task db i =
     (case select_by_id db i of
        Inl e \<Rightarrow> (500, ErrorJson e)
      | Inr rs \<Rightarrow>
          if length rs = 0 then (404, ErrorJson ''Task not found'')
          else (200, first_row rs))"

text \<open>\<^verbatim>\<open>router.post('/')\<close>: \<^verbatim>\<open>status\<close> defaults to \<^verbatim>\<open>'pending'\<close> when it is
  \<^verbatim>\<open>undefined\<close> (not when it is \<^verbatim>\<open>null\<close>).\<close>

definition post_task :: "storage \<Rightarrow> nat \<Rightarrow> req_body \<Rightarrow> storage \<times> response" where
  "post_task db now body =
     (let title = body_title body;
          description = body_description body;
          status = (case body_status body of JUndefined \<Rightarrow> JString ''pending'' | s \<Rightarrow> s)
      in if \<not> truthy title then (db, (400, ErrorJson ''Title is required''))
         else
           (case insert_task db now title description status of
              Inl e \<Rightarrow> (db, (500, ErrorJson e))
            | Inr (db', result) \<Rightarrow>
                (case select_by_id db' (insertId result) of
                   Inl e \<Rightarrow> (db', (500, ErrorJson e))
                 | Inr newTask \<Rightarrow> (db', (201, first_row newTask)))))"

text \<open>\<^verbatim>\<open>router.put('/:id')\<close>\<close>

definition put_task :: "storage \<Rightarrow> nat \<Rightarrow> nat \<Rightarrow> req_body \<Rightarrow> storage \<times> response" where
  "put_task db now taskId body =
     (let title = body_title body;
          description = body_description body;
          status = body_status body
      in case update_task db now title description status taskId of
           Inl e \<Rightarrow> (db, (500, ErrorJson e))
         | Inr (db', result) \<Rightarrow>
             if affectedRows result = 0 then (db', (404, ErrorJson ''Task not found''))
             else
               (case select_by_id db' taskId of
                  Inl e \<Rightarrow> (db', (500, ErrorJson e))
                | Inr updatedTask \<Rightarrow> (db', (200, first_row updatedTask))))"

text \<open>\<^verbatim>\<open>router.delete('/:id')\<close>\<close>

definition delete_task :: "storage \<Rightarrow> nat \<Rightarrow> storage \<times> response" where
  "delete_task db i =
     (case delete_from db i of
        Inl e \<Rightarrow> (db, (500, ErrorJson e))
      | Inr (db', result) \<Rightarrow>
          if affectedRows result = 0 then (db', (404, ErrorJson ''Task not found''))
          else (db', (200, MessageJson ''Task deleted successfully'')))"

section \<open>API client (services/api)\<close>

text \<open>
  A request the client issues. The handlers of the controller return the
  requests they issued, in order, next to the new state.
\<close>

datatype api_call = ApiPut nat req_body | ApiDelete nat

text \<open>
  \<^verbatim>\<open>taskService.updateTask\<close>: one PUT of the given body to \<^verbatim>\<open>/tasks/id\<close>;
  the awaited call either throws (\<open>Inl\<close>) or returns \<^verbatim>\<open>response.data\<close>. The
  transport \<open>api_put\<close> is the axios instance's \<^verbatim>\<open>put\<close>.
\<close>

definition updateTask ::
  "(nat \<Rightarrow> req_body \<Rightarrow> string + task) \<Rightarrow> nat \<Rightarrow> req_body \<Rightarrow> (string + task) \<times> api_call list" where
  "updateTask api_put i t =
     (case api_put i t of
        Inl e \<Rightarrow> (Inl e, [ApiPut i t])
      | Inr response_data \<Rightarrow> (Inr response_data, [ApiPut i t]))"

text \<open>\<^verbatim>\<open>taskService.deleteTask\<close>: one DELETE of \<^verbatim>\<open>/tasks/id\<close>, returning nothing.\<close>

definition deleteTask ::
  "(nat \<Rightarrow> string + unit) \<Rightarrow> nat \<Rightarrow> (string + unit) \<times> api_call list" where
  "deleteTask api_delete i =
     (case api_delete i of
        Inl e \<Rightarrow> (Inl e, [ApiDelete i])
      | Inr _ \<Rightarrow> (Inr (), [ApiDelete i]))"

section \<open>Application state controller (app/page.tsx)\<close>

text \<open>
  The five \<^verbatim>\<open>useState\<close> cells of \<^verbatim>\<open>Home\<close>. A handler takes the transport,
  the state of the render it was created in and its arguments, awaits its one
  request and returns the state it sets with the requests it issued. The
  \<^verbatim>\<open>console.error\<close> of a failure branch writes to the log only and is left
  out.
\<close>

record ui_state =
  tasks :: "task list"
  loading :: bool
  error :: "string option"
  showForm :: bool
  editingTask :: "task option"

text \<open>The object literal \<^verbatim>\<open>{ status }\<close>: a body with the one key \<^verbatim>\<open>status\<close>.\<close>

definition status_only :: "string \<Rightarrow> req_body" where
  "status_only s =
     \<lparr>body_title = JUndefined, body_description = JUndefined, body_status = JString s\<rparr>"

text \<open>\<^verbatim>\<open>handleEditTask\<close>\<close>

definition handleEditTask ::
  "(nat \<Rightarrow> req_body \<Rightarrow> string + task) \<Rightarrow> ui_state \<Rightarrow> req_body \<Rightarrow> ui_state \<times> api_call list" where
  "handleEditTask api_put st taskData =
     (case editingTask st of
        None \<Rightarrow> (st, [])
      | Some editing \<Rightarrow>
          (case updateTask api_put (task_id editing) taskData of
             (Inr updatedTask, calls) \<Rightarrow>
               (st\<lparr>tasks := map (\<lambda>task. if task_id task = task_id editing then updatedTask else task)
                               (tasks st),
                   editingTask := None,
                   showForm := False\<rparr>, calls)
           | (Inl err, calls) \<Rightarrow> (st\<lparr>error := Some ''Failed to update task''\<rparr>, calls)))"

text \<open>
  \<^verbatim>\<open>handleDeleteTask\<close>: \<open>confirm\<close> is the browser's blocking prompt, which
  returns whether the user accepted the message.
\<close>

definition handleDeleteTask ::
  "(string \<Rightarrow> bool) \<Rightarrow> (nat \<Rightarrow> string + unit) \<Rightarrow> ui_state \<Rightarrow> nat \<Rightarrow> ui_state \<times> api_call list" where
  "handleDeleteTask confirm api_delete st i =
     (if \<not> confirm ''Are you sure you want to delete this task?'' then (st, [])
      else
        (case deleteTask api_delete i of
           (Inr _, calls) \<Rightarrow> (st\<lparr>tasks := filter (\<lambda>task. task_id task \<noteq> i) (tasks st)\<rparr>, calls)
         | (Inl err, calls) \<Rightarrow> (st\<lparr>error := Some ''Failed to delete task''\<rparr>, calls)))"

text \<open>\<^verbatim>\<open>handleStatusChange\<close>\<close>

definition handleStatusChange ::
  "(nat \<Rightarrow> req_body \<Rightarrow> string + task) \<Rightarrow> ui_state \<Rightarrow> nat \<Rightarrow> string \<Rightarrow> ui_state \<times> api_call list" where
  "handleStatusChange api_put st i s =
     (case updateTask api_put i (status_only s) of
        (Inr updatedTask, calls) \<Rightarrow>
          (st\<lparr>tasks := map (\<lambda>task. if task_id task = i then updatedTask else task) (tasks st)\<rparr>,
           calls)
      | (Inl err, calls) \<Rightarrow> (st\<lparr>error := Some ''Failed to update task status''\<rparr>, calls))"

section \<open>Predicates and example data\<close>

text \<open>
  The storage as the accessor keeps it: the counter is positive and above every
  assigned id, and no id is assigned twice.
\<close>

definition storage_ok :: "storage \<Rightarrow> bool" where
  "storage_ok db =
     (0 < auto_increment db
      \<and> list_all (\<lambda>r. task_id r < auto_increment db) (rows db)
      \<and> distinct (map task_id (rows db)))"

text \<open>Rows in non-increasing \<^verbatim>\<open>created_at\<close> order.\<close>

definition newest_first :: "task list \<Rightarrow> bool" where
  "newest_first rs = sorted_wrt (\<lambda>a b. created_at b \<le> created_at a) rs"

definition buy_milk :: req_body where
  "buy_milk = \<lparr>body_title = JString ''Buy milk'', body_description = JUndefined,
               body_status = JUndefined\<rparr>"

definition walk_dog :: req_body where
  "walk_dog = \<lparr>body_title = JString ''Walk dog'', body_description = JString ''twice'',
               body_status = JString ''in-progress''\<rparr>"

definition pay_rent :: req_body where
  "pay_rent = \<lparr>body_title = JString ''Pay rent'', body_description = JNull,
               body_status = JString ''completed''\<rparr>"

definition blank_title :: req_body where
  "blank_title = \<lparr>body_title = JString [], body_description = JString ''2 litres'',
                  body_status = JString ''pending''\<rparr>"

definition one_task :: storage where
  "one_task = fst (post_task empty_storage 5 buy_milk)"

definition two_tasks :: storage where
  "two_tasks = fst (post_task one_task 5 walk_dog)"

definition three_tasks :: storage where
  "three_tasks = fst (post_task two_tasks 5 pay_rent)"

text \<open>The three rows of \<open>three_tasks\<close>, all created at clock reading 5.\<close>

definition milk_row :: task where
  "milk_row = \<lparr>task_id = 1, title = Some ''Buy milk'', description = None,
                status = Some ''pending'', created_at = 5, updated_at = 5\<rparr>"

definition dog_row :: task where
  "dog_row = \<lparr>task_id = 2, title = Some ''Walk dog'', description = Some ''twice'',
               status = Some ''in-progress'', created_at = 5, updated_at = 5\<rparr>"

definition rent_row :: task where
  "rent_row = \<lparr>task_id = 3, title = Some ''Pay rent'', description = None,
                status = Some ''completed'', created_at = 5, updated_at = 5\<rparr>"

text \<open>
  The invariant of the data model for one row: the status is one of the three
  enumerated values, the id is assigned (ids start at 1) and the title is a
  non-empty text.
\<close>

definition task_valid :: "task \<Rightarrow> bool" where
  "task_valid r =
     (status r \<in> {Some ''pending'', Some ''in-progress'', Some ''completed''}
      \<and> 0 < task_id r
      \<and> title r \<noteq> None \<and> title r \<noteq> Some [])"

text \<open>
  The transport against a server that holds storage \<open>db\<close> at clock reading
  \<open>now\<close>: axios resolves with \<^verbatim>\<open>response.data\<close> when the status is 2xx and
  rejects otherwise. (A 2xx answer of these two handlers with no task in it does
  not occur; the transports reject it.)
\<close>

definition axios_put :: "storage \<Rightarrow> nat \<Rightarrow> nat \<Rightarrow> req_body \<Rightarrow> string + task" where
  "axios_put db now i body =
     (case snd (put_task db now i body) of
        (code, TaskJson r) \<Rightarrow>
          if 200 \<le> code \<and> code < 300 then Inr r else Inl ''Request failed''
      | (code, other) \<Rightarrow> Inl ''Request failed'')"

definition axios_delete :: "storage \<Rightarrow> nat \<Rightarrow> string + unit" where
  "axios_delete db i =
     (case snd (delete_task db i) of
        (code, other) \<Rightarrow>
          if 200 \<le> code \<and> code < 300 then Inr () else Inl ''Request failed'')"

text \<open>The two answers to the confirmation prompt.\<close>

definition user_accepts :: "string \<Rightarrow> bool" where
  "user_accepts message = True"

definition user_declines :: "string \<Rightarrow> bool" where
  "user_declines message = False"

text \<open>A controller state showing the two rows of \<open>two_tasks\<close>.\<close>

definition two_cards :: ui_state where
  "two_cards = \<lparr>tasks = [dog_row, milk_row], loading = False, error = None,
                 showForm = False, editingTask = None\<rparr>"

section \<open>Facts about the storage\<close>

text \<open>A valid create on a working storage, unfolded.\<close>

lemma post_task_valid:
  "fault db = None \<Longrightarrow> truthy (body_title body) \<Longrightarrow>
   post_task db now body =
     (db\<lparr>rows := rows db @
          [\<lparr>task_id = auto_increment db, title = bind_param (body_title body),
            description = bind_param (body_description body),
            status = bind_param (case body_status body of JUndefined \<Rightarrow> JString ''pending'' | s \<Rightarrow> s),
            created_at = now, updated_at = now\<rparr>],
        auto_increment := auto_increment db + 1\<rparr>,
      (201, first_row (filter (\<lambda>r. task_id r = auto_increment db) (rows db) @
          [\<lparr>task_id = auto_increment db, title = bind_param (body_title body),
            description = bind_param (body_description body),
            status = bind_param (case body_status body of JUndefined \<Rightarrow> JString ''pending'' | s \<Rightarrow> s),
            created_at = now, updated_at = now\<rparr>])))"
  by (simp add: post_task_def insert_task_def select_by_id_def Let_def)

text \<open>
  The counter is above every assigned id, so the row an INSERT adds is the only
  row with its id; every handler keeps the storage that way.
\<close>

lemma no_row_with_counter:
  "list_all (\<lambda>r. task_id r < n) rs \<Longrightarrow> filter (\<lambda>r. task_id r = n) rs = []"
  by (induction rs) auto

lemma storage_ok_empty: "storage_ok empty_storage"
  by (simp add: storage_ok_def empty_storage_def)

lemma storage_ok_post: "storage_ok db \<Longrightarrow> storage_ok (fst (post_task db now body))"
proof (cases "fault db = None \<and> truthy (body_title body)")
  case True
  assume ok: "storage_ok db"
  have "list_all (\<lambda>r. task_id r < Suc (auto_increment db)) (rows db)"
    using ok by (auto simp: storage_ok_def list_all_iff)
  moreover have "auto_increment db \<notin> task_id ` set (rows db)"
    using ok by (auto simp: storage_ok_def list_all_iff)
  ultimately show ?thesis
    using True ok by (simp add: post_task_valid storage_ok_def)
next
  case False
  assume ok: "storage_ok db"
  from False have "fst (post_task db now body) = db"
    by (auto simp: post_task_def insert_task_def Let_def split: option.splits)
  with ok show ?thesis by simp
qed

lemma map_task_id_update:
  "map task_id (map (\<lambda>r. if task_id r = i then write_row now t d s r else r) rs) = map task_id rs"
  by (induction rs) (auto simp: write_row_def)

lemma storage_ok_put: "storage_ok db \<Longrightarrow> storage_ok (fst (put_task db now i body))"
proof (cases "fault db")
  case None
  assume ok: "storage_ok db"
  let ?rs = "map (\<lambda>r. if task_id r = i
                        then write_row now (body_title body) (body_description body)
                               (body_status body) r
                        else r) (rows db)"
  have ids: "map task_id ?rs = map task_id (rows db)"
    by (rule map_task_id_update)
  have "fst (put_task db now i body) = db\<lparr>rows := ?rs\<rparr>"
    using None by (simp add: put_task_def update_task_def select_by_id_def Let_def)
  moreover have "distinct (map task_id ?rs)"
    using ok unfolding ids by (simp add: storage_ok_def)
  moreover have "list_all (\<lambda>r. task_id r < auto_increment db) ?rs"
    using ok by (auto simp: storage_ok_def list_all_iff write_row_def)
  ultimately show ?thesis
    using ok by (simp add: storage_ok_def)
next
  case (Some e)
  assume "storage_ok db"
  then show ?thesis
    using Some by (simp add: put_task_def update_task_def Let_def)
qed

lemma storage_ok_delete: "storage_ok db \<Longrightarrow> storage_ok (fst (delete_task db i))"
  by (auto simp: delete_task_def delete_from_def storage_ok_def list_all_iff distinct_map_filter
      split: option.splits)

lemma put_task_found:
  assumes "fault db = None" and "i \<in> task_id ` set (rows db)"
  shows "put_task db now i body =
     (db\<lparr>rows := map (\<lambda>r. if task_id r = i
                 then write_row now (body_title body) (body_description body) (body_status body) r
                 else r) (rows db)\<rparr>,
      (200, first_row (map (write_row now (body_title body) (body_description body) (body_status body))
                 (filter (\<lambda>r. task_id r = i) (rows db)))))"
proof -
  have ne: "filter (\<lambda>r. task_id r = i) (rows db) \<noteq> []"
    using assms(2) by (auto simp: filter_empty_conv)
  have sel: "filter (\<lambda>r. task_id r = i)
        (map (\<lambda>r. if task_id r = i then write_row now t d s r else r) rs)
      = map (write_row now t d s) (filter (\<lambda>r. task_id r = i) rs)" for t d s rs
    by (induction rs) (auto simp: write_row_def)
  show ?thesis
    using assms(1) ne
    by (simp add: put_task_def update_task_def select_by_id_def Let_def sel)
qed

text \<open>The example storages, evaluated.\<close>

lemma one_task_eq:
  "one_task =
     \<lparr>rows = [\<lparr>task_id = 1, title = Some ''Buy milk'', description = None,
                status = Some ''pending'', created_at = 5, updated_at = 5\<rparr>],
       auto_increment = 2, fault = None\<rparr>"
  by (simp add: one_task_def empty_storage_def buy_milk_def post_task_def insert_task_def
      select_by_id_def)

lemma two_tasks_eq:
  "two_tasks =
     \<lparr>rows = [\<lparr>task_id = 1, title = Some ''Buy milk'', description = None,
                status = Some ''pending'', created_at = 5, updated_at = 5\<rparr>,
              \<lparr>task_id = 2, title = Some ''Walk dog'', description = Some ''twice'',
                status = Some ''in-progress'', created_at = 5, updated_at = 5\<rparr>],
       auto_increment = 3, fault = None\<rparr>"
  by (simp add: two_tasks_def one_task_eq walk_dog_def post_task_def insert_task_def
      select_by_id_def)

lemma three_tasks_eq:
  "three_tasks =
     \<lparr>rows = [\<lparr>task_id = 1, title = Some ''Buy milk'', description = None,
                status = Some ''pending'', created_at = 5, updated_at = 5\<rparr>,
              \<lparr>task_id = 2, title = Some ''Walk dog'', description = Some ''twice'',
                status = Some ''in-progress'', created_at = 5, updated_at = 5\<rparr>,
              \<lparr>task_id = 3, title = Some ''Pay rent'', description = None,
                status = Some ''completed'', created_at = 5, updated_at = 5\<rparr>],
       auto_increment = 4, fault = None\<rparr>"
  by (simp add: three_tasks_def two_tasks_eq pay_rent_def post_task_def insert_task_def
      select_by_id_def)

lemma select_all_newest_first:
  "newest_first (sort_key (\<lambda>r. - int (created_at r)) rs)"
proof -
  have "sorted (map (\<lambda>r. - int (created_at r)) (sort_key (\<lambda>r. - int (created_at r)) rs))"
    by (rule sorted_sort_key)
  then show ?thesis
    by (simp add: newest_first_def sorted_map)
qed

lemma get_tasks_working:
  "fault db = None \<Longrightarrow>
   get_tasks db = (200, TaskListJson (sort_key (\<lambda>r. - int (created_at r)) (rows db)))"
  by (simp add: get_tasks_def select_all_def)

lemma post_task_first_row:
  assumes "fault db = None" and "truthy (body_title body)" and "rows db = []"
  shows "post_task db now body =
     (db\<lparr>rows := [\<lparr>task_id = auto_increment db, title = bind_param (body_title body),
            description = bind_param (body_description body),
            status = bind_param (case body_status body of JUndefined \<Rightarrow> JString ''pending'' | s \<Rightarrow> s),
            created_at = now, updated_at = now\<rparr>],
        auto_increment := auto_increment db + 1\<rparr>,
      (201, TaskJson \<lparr>task_id = auto_increment db, title = bind_param (body_title body),
            description = bind_param (body_description body),
            status = bind_param (case body_status body of JUndefined \<Rightarrow> JString ''pending'' | s \<Rightarrow> s),
            created_at = now, updated_at = now\<rparr>))"
  using assms by (simp add: post_task_valid first_row_def)

lemma three_inserts_listed:
  assumes up: "fault db = None" and empty: "rows db = []"
    and v1: "truthy (body_title b1)" and v2: "truthy (body_title b2)" and v3: "truthy (body_title b3)"
    and p1: "post_task db n1 b1 = (db1, r1)"
    and p2: "post_task db1 n2 b2 = (db2, r2)"
    and p3: "post_task db2 n3 b3 = (db3, r3)"
    and lt: "n1 < n2" "n2 < n3"
  shows "\<exists>T1 T2 T3. r1 = (201, TaskJson T1) \<and> r2 = (201, TaskJson T2) \<and> r3 = (201, TaskJson T3)
           \<and> created_at T1 = n1 \<and> created_at T2 = n2 \<and> created_at T3 = n3
           \<and> get_tasks db3 = (200, TaskListJson [T3, T2, T1])"
proof -
  let ?T = "\<lambda>i n b. \<lparr>task_id = i, title = bind_param (body_title b),
            description = bind_param (body_description b),
            status = bind_param (case body_status b of JUndefined \<Rightarrow> JString ''pending'' | s \<Rightarrow> s),
            created_at = n, updated_at = n\<rparr>"
  let ?a = "auto_increment db"
  have d1: "db1 = db\<lparr>rows := [?T ?a n1 b1], auto_increment := ?a + 1\<rparr>"
    and r1: "r1 = (201, TaskJson (?T ?a n1 b1))"
    using p1 post_task_first_row [OF up v1 empty, of n1] by simp_all
  have up1: "fault db1 = None"
    using up d1 by simp
  have p2': "post_task db1 n2 b2 =
      (db1\<lparr>rows := [?T ?a n1 b1, ?T (?a + 1) n2 b2], auto_increment := ?a + 2\<rparr>,
       (201, TaskJson (?T (?a + 1) n2 b2)))"
    using up1 v2 by (simp add: post_task_valid d1 first_row_def)
  have d2: "db2 = db1\<lparr>rows := [?T ?a n1 b1, ?T (?a + 1) n2 b2], auto_increment := ?a + 2\<rparr>"
    and r2: "r2 = (201, TaskJson (?T (?a + 1) n2 b2))"
    using p2 p2' by simp_all
  have up2: "fault db2 = None"
    using up1 d2 by simp
  have p3': "post_task db2 n3 b3 =
      (db2\<lparr>rows := [?T ?a n1 b1, ?T (?a + 1) n2 b2, ?T (?a + 2) n3 b3], auto_increment := ?a + 3\<rparr>,
       (201, TaskJson (?T (?a + 2) n3 b3)))"
    using up2 v3 by (simp add: post_task_valid d2 first_row_def)
  have d3: "db3 = db2\<lparr>rows := [?T ?a n1 b1, ?T (?a + 1) n2 b2, ?T (?a + 2) n3 b3], auto_increment := ?a + 3\<rparr>"
    and r3: "r3 = (201, TaskJson (?T (?a + 2) n3 b3))"
    using p3 p3' by simp_all
  have up3: "fault db3 = None"
    using up2 d3 by simp
  have rows3: "rows db3 = [?T ?a n1 b1, ?T (?a + 1) n2 b2, ?T (?a + 2) n3 b3]"
    using d3 by simp
  have "sort_key (\<lambda>r. - int (created_at r)) (rows db3)
      = [?T (?a + 2) n3 b3, ?T (?a + 1) n2 b2, ?T ?a n1 b1]"
    unfolding rows3 using lt by simp
  then have "get_tasks db3 = (200, TaskListJson [?T (?a + 2) n3 b3, ?T (?a + 1) n2 b2, ?T ?a n1 b1])"
    using get_tasks_working [OF up3] by simp
  with r1 r2 r3 show ?thesis
    by (intro exI [of _ "?T ?a n1 b1"] exI [of _ "?T (?a + 1) n2 b2"] exI [of _ "?T (?a + 2) n3 b3"]) simp
qed

text \<open>
  Create keeps the invariant of the data model when the status of the body is
  absent or one of the three enumerated values.
\<close>

lemma create_keeps_invariant:
  assumes "storage_ok db" and "list_all task_valid (rows db)"
    and "body_status body \<in> {JUndefined, JString ''pending'', JString ''in-progress'',
           JString ''completed''}"
  shows "list_all task_valid (rows (fst (post_task db now body)))"
proof (cases "fault db = None \<and> truthy (body_title body)")
  case True
  then obtain t where t: "body_title body = JString t" "t \<noteq> []"
    by (cases "body_title body") auto
  have "0 < auto_increment db"
    using assms(1) by (simp add: storage_ok_def)
  then show ?thesis
    using True assms(2,3) t by (auto simp: post_task_valid task_valid_def)
next
  case False
  then have "fst (post_task db now body) = db"
    by (auto simp: post_task_def insert_task_def Let_def split: option.splits)
  with assms(2) show ?thesis by simp
qed

text \<open>Filtering one id out of a list with distinct ids removes one element.\<close>

lemma filter_out_one:
  assumes "distinct (map task_id ts)" and "i \<in> task_id ` set ts"
  shows "\<exists>xs t ys. ts = xs @ t # ys \<and> task_id t = i
           \<and> filter (\<lambda>task. task_id task \<noteq> i) ts = xs @ ys"
  using assms
proof (induction ts)
  case Nil
  then show ?case by simp
next
  case (Cons a ts)
  show ?case
  proof (cases "task_id a = i")
    case True
    from Cons.prems(1) have "task_id a \<notin> task_id ` set ts"
      by simp
    with True have "\<forall>x \<in> set ts. task_id x \<noteq> i"
      by blast
    then have "filter (\<lambda>task. task_id task \<noteq> i) ts = ts"
      by (simp add: filter_id_conv)
    with True show ?thesis
      by (intro exI [of _ "[]"] exI [of _ a] exI [of _ ts]) simp
  next
    case False
    with Cons.prems have "distinct (map task_id ts)" and "i \<in> task_id ` set ts"
      by auto
    then obtain xs t ys where "ts = xs @ t # ys" "task_id t = i"
      "filter (\<lambda>task. task_id task \<noteq> i) ts = xs @ ys"
      using Cons.IH by blast
    with False show ?thesis
      by (intro exI [of _ "a # xs"] exI [of _ t] exI [of _ ys]) simp
  qed
qed

section \<open>Create: validation\<close>

text \<open>
  C2. A create request whose title is absent (undefined or null) or the empty
  string is answered with status 400 and the storage is returned as it was: no
  statement ran, so the rows and the id counter are those before the request.
  This holds whatever the state of the storage, failing or not.
\<close>

theorem create_without_title_rejected:
  "body_title body \<in> {JUndefined, JNull, JString []} \<Longrightarrow>
   post_task db now body = (db, (400, ErrorJson ''Title is required''))"
  by (auto simp: post_task_def)

theorem create_without_title_rejected_witness:
  "post_task empty_storage 3
     \<lparr>body_title = JString [], body_description = JString ''x'', body_status = JUndefined\<rparr>
   = (empty_storage, (400, ErrorJson ''Title is required''))
   \<and> post_task empty_storage 3
     \<lparr>body_title = JUndefined, body_description = JNull, body_status = JString ''completed''\<rparr>
   = (empty_storage, (400, ErrorJson ''Title is required''))"
  using create_without_title_rejected [of "\<lparr>body_title = JString [], body_description = JString ''x'', body_status = JUndefined\<rparr>" empty_storage 3]
    create_without_title_rejected [of "\<lparr>body_title = JUndefined, body_description = JNull, body_status = JString ''completed''\<rparr>" empty_storage 3]
  by simp

section \<open>Create: the response\<close>

text \<open>
  C3. On a working storage, a create request whose title is a non-empty string is
  answered with status 201 and the record read back from the storage after the
  insert: the record is the one row appended, its id is positive and no id of a
  row stored before, its title is the title of the request, and its status is
  "pending" when the request has no status (the status of the request
  otherwise).
\<close>

theorem create_returns_fresh_record:
  assumes "storage_ok db" and "fault db = None"
    and "body_title body = JString t" and "t \<noteq> []"
  shows "\<exists>r. post_task db now body =
            (db\<lparr>rows := rows db @ [r], auto_increment := auto_increment db + 1\<rparr>,
             (201, TaskJson r))
          \<and> select_by_id (fst (post_task db now body)) (task_id r) = Inr [r]
          \<and> 0 < task_id r
          \<and> task_id r \<notin> task_id ` set (rows db)
          \<and> title r = Some t
          \<and> description r = bind_param (body_description body)
          \<and> (body_status body = JUndefined \<longrightarrow> status r = Some ''pending'')
          \<and> (body_status body \<noteq> JUndefined \<longrightarrow> status r = bind_param (body_status body))"
proof -
  let ?r = "\<lparr>task_id = auto_increment db, title = bind_param (body_title body),
            description = bind_param (body_description body),
            status = bind_param (case body_status body of JUndefined \<Rightarrow> JString ''pending'' | s \<Rightarrow> s),
            created_at = now, updated_at = now\<rparr>"
  have bound: "list_all (\<lambda>r. task_id r < auto_increment db) (rows db)"
    and pos: "0 < auto_increment db"
    using assms(1) by (simp_all add: storage_ok_def)
  have none: "filter (\<lambda>r. task_id r = auto_increment db) (rows db) = []"
    using bound by (rule no_row_with_counter)
  have valid: "truthy (body_title body)"
    using assms(3,4) by simp
  have post: "post_task db now body =
      (db\<lparr>rows := rows db @ [?r], auto_increment := auto_increment db + 1\<rparr>, (201, TaskJson ?r))"
    using assms(2) valid none by (simp add: post_task_valid first_row_def)
  have read: "select_by_id (fst (post_task db now body)) (task_id ?r) = Inr [?r]"
    using assms(2) none by (simp add: post select_by_id_def)
  have fresh: "task_id ?r \<notin> task_id ` set (rows db)"
    using bound by (auto simp: list_all_iff)
  have st: "body_status body = JUndefined \<longrightarrow> status ?r = Some ''pending''"
    by simp
  have st': "body_status body \<noteq> JUndefined \<longrightarrow> status ?r = bind_param (body_status body)"
    by (cases "body_status body") simp_all
  show ?thesis
    using post read pos fresh st st' assms(3) 
    by (intro exI [of _ ?r]) simp
qed

theorem create_returns_fresh_record_witness:
  "storage_ok empty_storage \<and> fault empty_storage = None
   \<and> body_title buy_milk = JString ''Buy milk''
   \<and> post_task empty_storage 5 buy_milk =
       (\<lparr>rows = [\<lparr>task_id = 1, title = Some ''Buy milk'', description = None,
                   status = Some ''pending'', created_at = 5, updated_at = 5\<rparr>],
          auto_increment = 2, fault = None\<rparr>,
        (201, TaskJson \<lparr>task_id = 1, title = Some ''Buy milk'', description = None,
                   status = Some ''pending'', created_at = 5, updated_at = 5\<rparr>))"
proof -
  have ok: "storage_ok empty_storage"
    by (rule storage_ok_empty)
  have up: "fault empty_storage = None"
    by (simp add: empty_storage_def)
  have ti: "body_title buy_milk = JString ''Buy milk''"
    by (simp add: buy_milk_def)
  obtain r where
    "post_task empty_storage 5 buy_milk =
       (empty_storage\<lparr>rows := rows empty_storage @ [r],
          auto_increment := auto_increment empty_storage + 1\<rparr>, (201, TaskJson r))"
    and "select_by_id (fst (post_task empty_storage 5 buy_milk)) (task_id r) = Inr [r]"
    and "title r = Some ''Buy milk''"
    and "description r = bind_param (body_description buy_milk)"
    and "body_status buy_milk = JUndefined \<longrightarrow> status r = Some ''pending''"
    using create_returns_fresh_record [OF ok up ti, of 5] by auto
  then show ?thesis
    using ok up ti
    by (auto simp: empty_storage_def buy_milk_def post_task_def insert_task_def
        select_by_id_def first_row_def)
qed

section \<open>Update\<close>

text \<open>
  C1. On a working storage, an update request for the id of a stored task is
  answered with status 200 and the record read back; in that record, and in every
  stored row with that id, title, description and status are the three fields of
  the request body as bound, whatever the row held before. A field the body does
  not have is bound as NULL: an update whose body has only a status leaves the
  row with a NULL title and a NULL description.
\<close>

theorem update_replaces_all_fields:
  assumes "fault db = None" and "i \<in> task_id ` set (rows db)"
  shows "\<exists>r. snd (put_task db now i body) = (200, TaskJson r)
          \<and> task_id r = i
          \<and> r \<in> set (rows (fst (put_task db now i body)))
          \<and> title r = bind_param (body_title body)
          \<and> description r = bind_param (body_description body)
          \<and> status r = bind_param (body_status body)
          \<and> (body_title body = JUndefined \<longrightarrow> title r = None)
          \<and> (body_description body = JUndefined \<longrightarrow> description r = None)
          \<and> (body_status body = JUndefined \<longrightarrow> status r = None)
          \<and> (\<forall>x \<in> set (rows (fst (put_task db now i body))).
                task_id x = i \<longrightarrow>
                  title x = bind_param (body_title body)
                  \<and> description x = bind_param (body_description body)
                  \<and> status x = bind_param (body_status body))"
proof -
  let ?w = "write_row now (body_title body) (body_description body) (body_status body)"
  obtain x xs where f: "filter (\<lambda>r. task_id r = i) (rows db) = x # xs"
    using assms(2) by (cases "filter (\<lambda>r. task_id r = i) (rows db)") (auto simp: filter_empty_conv)
  have xin: "x \<in> set (rows db)" and xid: "task_id x = i"
  proof -
    have "x \<in> set (filter (\<lambda>r. task_id r = i) (rows db))"
      unfolding f by simp
    then show "x \<in> set (rows db)" and "task_id x = i"
      by simp_all
  qed
  have resp: "snd (put_task db now i body) = (200, TaskJson (?w x))"
    using assms f by (simp add: put_task_found first_row_def)
  have stored: "?w x \<in> set (rows (fst (put_task db now i body)))"
    using assms xin xid by (auto simp: put_task_found intro!: image_eqI [of _ _ x])
  have all: "\<forall>y \<in> set (rows (fst (put_task db now i body))).
                task_id y = i \<longrightarrow>
                  title y = bind_param (body_title body)
                  \<and> description y = bind_param (body_description body)
                  \<and> status y = bind_param (body_status body)"
    using assms by (auto simp: put_task_found write_row_def)
  show ?thesis
    using resp stored all xid
    by (intro exI [of _ "?w x"]) (auto simp: write_row_def)
qed

theorem update_replaces_all_fields_witness:
  "fault one_task = None \<and> 1 \<in> task_id ` set (rows one_task)
   \<and> map title (rows one_task) = [Some ''Buy milk'']
   \<and> (\<exists>r. snd (put_task one_task 9 1 (status_only ''completed'')) = (200, TaskJson r)
          \<and> r \<in> set (rows (fst (put_task one_task 9 1 (status_only ''completed''))))
          \<and> task_id r = 1 \<and> title r = None \<and> description r = None
          \<and> status r = Some ''completed'')"
proof -
  have up: "fault one_task = None"
    by (simp add: one_task_eq)
  have stored: "1 \<in> task_id ` set (rows one_task)"
    by (simp add: one_task_eq)
  have before: "map title (rows one_task) = [Some ''Buy milk'']"
    by (simp add: one_task_eq)
  show ?thesis
    using up stored before
      update_replaces_all_fields [OF up stored, of 9 "status_only ''completed''"]
    by (auto simp: status_only_def)
qed

section \<open>Get and delete of a missing id\<close>

text \<open>
  C5. On a working storage, for an id that no stored row has, get answers 404 and
  delete answers 404 and leaves the storage as it was. For an id that a stored
  row has, delete answers 200 and removes every row with the id; a second delete
  of the same id answers 404, and the storage after it is the storage after the
  first delete.
\<close>

theorem missing_id_not_found:
  assumes "fault db = None"
  shows "(i \<notin> task_id ` set (rows db) \<longrightarrow>
            get_task db i = (404, ErrorJson ''Task not found'')
            \<and> delete_task db i = (db, (404, ErrorJson ''Task not found'')))
       \<and> (i \<in> task_id ` set (rows db) \<longrightarrow>
            snd (delete_task db i) = (200, MessageJson ''Task deleted successfully'')
            \<and> i \<notin> task_id ` set (rows (fst (delete_task db i)))
            \<and> delete_task (fst (delete_task db i)) i =
                (fst (delete_task db i), (404, ErrorJson ''Task not found'')))"
proof -
  have none: "filter (\<lambda>r. task_id r = i) rs = [] \<and> filter (\<lambda>r. task_id r \<noteq> i) rs = rs"
    if "i \<notin> task_id ` set rs" for rs :: "task list"
    using that by (induction rs) auto
  have absent: "delete_task d i = (d, (404, ErrorJson ''Task not found''))"
    if "fault d = None" and "i \<notin> task_id ` set (rows d)" for d
    using that none [of "rows d"] by (simp add: delete_task_def delete_from_def)
  have a: "get_task db i = (404, ErrorJson ''Task not found'')" if "i \<notin> task_id ` set (rows db)"
    using assms none [OF that] by (simp add: get_task_def select_by_id_def)
  have some: "filter (\<lambda>r. task_id r = i) (rows db) \<noteq> []" if "i \<in> task_id ` set (rows db)"
    using that by (auto simp: filter_empty_conv)
  have del: "delete_task db i =
      (db\<lparr>rows := filter (\<lambda>r. task_id r \<noteq> i) (rows db)\<rparr>,
       (200, MessageJson ''Task deleted successfully''))" if "i \<in> task_id ` set (rows db)"
    using assms some [OF that] by (simp add: delete_task_def delete_from_def)
  have gone: "i \<notin> task_id ` set (rows (db\<lparr>rows := filter (\<lambda>r. task_id r \<noteq> i) (rows db)\<rparr>))"
    by auto
  have again: "delete_task (db\<lparr>rows := filter (\<lambda>r. task_id r \<noteq> i) (rows db)\<rparr>) i =
      (db\<lparr>rows := filter (\<lambda>r. task_id r \<noteq> i) (rows db)\<rparr>, (404, ErrorJson ''Task not found''))"
    using assms gone by (intro absent) simp_all
  show ?thesis
    using a absent [OF assms] del gone again by simp
qed

theorem missing_id_not_found_witness:
  "fault two_tasks = None
   \<and> 7 \<notin> task_id ` set (rows two_tasks)
   \<and> get_task two_tasks 7 = (404, ErrorJson ''Task not found'')
   \<and> delete_task two_tasks 7 = (two_tasks, (404, ErrorJson ''Task not found''))
   \<and> 2 \<in> task_id ` set (rows two_tasks)
   \<and> delete_task two_tasks 2 =
        (\<lparr>rows = [\<lparr>task_id = 1, title = Some ''Buy milk'', description = None,
                   status = Some ''pending'', created_at = 5, updated_at = 5\<rparr>],
          auto_increment = 3, fault = None\<rparr>,
         (200, MessageJson ''Task deleted successfully''))
   \<and> delete_task
         \<lparr>rows = [\<lparr>task_id = 1, title = Some ''Buy milk'', description = None,
                   status = Some ''pending'', created_at = 5, updated_at = 5\<rparr>],
          auto_increment = 3, fault = None\<rparr> 2 =
        (\<lparr>rows = [\<lparr>task_id = 1, title = Some ''Buy milk'', description = None,
                   status = Some ''pending'', created_at = 5, updated_at = 5\<rparr>],
          auto_increment = 3, fault = None\<rparr>,
         (404, ErrorJson ''Task not found''))"
proof -
  have up: "fault two_tasks = None"
    by (simp add: two_tasks_eq)
  have absent: "7 \<notin> task_id ` set (rows two_tasks)"
    by (simp add: two_tasks_eq)
  have stored: "2 \<in> task_id ` set (rows two_tasks)"
    by (simp add: two_tasks_eq)
  have first: "fst (delete_task two_tasks 2) =
        \<lparr>rows = [\<lparr>task_id = 1, title = Some ''Buy milk'', description = None,
                   status = Some ''pending'', created_at = 5, updated_at = 5\<rparr>],
          auto_increment = 3, fault = None\<rparr>"
    by (simp add: two_tasks_eq delete_task_def delete_from_def)
  show ?thesis
    using up absent stored first
      missing_id_not_found [OF up, of 7] missing_id_not_found [OF up, of 2]
    by (simp add: prod_eq_iff)
qed

section \<open>Create, then get\<close>

text \<open>
  C6. On a working storage, a create request with a truthy title is answered with
  status 201 and a record; a get of that record's id on the storage the create
  left answers 200 with the same record: every field, the id and both
  timestamps included, is the one the create response reported.
\<close>

theorem create_then_get_round_trip:
  assumes "fault db = None" and "truthy (body_title body)"
  shows "\<exists>r. snd (post_task db now body) = (201, TaskJson r)
          \<and> get_task (fst (post_task db now body)) (task_id r) = (200, TaskJson r)"
proof -
  let ?new = "\<lparr>task_id = auto_increment db, title = bind_param (body_title body),
            description = bind_param (body_description body),
            status = bind_param (case body_status body of JUndefined \<Rightarrow> JString ''pending'' | s \<Rightarrow> s),
            created_at = now, updated_at = now\<rparr>"
  let ?found = "filter (\<lambda>r. task_id r = auto_increment db) (rows db) @ [?new]"
  obtain r rs where found: "?found = r # rs"
    by (cases ?found) auto
  have "r \<in> set ?found"
    unfolding found by simp
  then have rid: "task_id r = auto_increment db"
    by auto
  have resp: "snd (post_task db now body) = (201, TaskJson r)"
    using assms found by (simp add: post_task_valid first_row_def)
  have "get_task (fst (post_task db now body)) (auto_increment db) = (200, TaskJson r)"
    using assms found by (simp add: post_task_valid get_task_def select_by_id_def first_row_def)
  with resp rid show ?thesis
    by auto
qed

theorem create_then_get_round_trip_witness:
  "fault one_task = None \<and> truthy (body_title walk_dog)
   \<and> snd (post_task one_task 5 walk_dog) =
        (201, TaskJson \<lparr>task_id = 2, title = Some ''Walk dog'', description = Some ''twice'',
                status = Some ''in-progress'', created_at = 5, updated_at = 5\<rparr>)
   \<and> get_task (fst (post_task one_task 5 walk_dog)) 2 =
        (200, TaskJson \<lparr>task_id = 2, title = Some ''Walk dog'', description = Some ''twice'',
                status = Some ''in-progress'', created_at = 5, updated_at = 5\<rparr>)"
proof -
  have up: "fault one_task = None"
    by (simp add: one_task_eq)
  have valid: "truthy (body_title walk_dog)"
    by (simp add: walk_dog_def)
  have sent: "snd (post_task one_task 5 walk_dog) =
        (201, TaskJson \<lparr>task_id = 2, title = Some ''Walk dog'', description = Some ''twice'',
                status = Some ''in-progress'', created_at = 5, updated_at = 5\<rparr>)"
    by (simp add: one_task_eq walk_dog_def post_task_def insert_task_def select_by_id_def
        first_row_def)
  show ?thesis
    using up valid sent create_then_get_round_trip [OF up valid, of 5]
    by auto
qed

section \<open>List\<close>

text \<open>
  C4 (as amended). On a working storage, list takes no input and answers 200 with
  all stored rows, each as often as it is stored, in non-increasing
  \<^verbatim>\<open>created_at\<close> order. Three valid creates T1, T2, T3 on an empty table at
  strictly increasing clock readings are listed as [T3, T2, T1].
\<close>

theorem list_newest_first:
  assumes "fault db = None"
  shows "(\<exists>ts. get_tasks db = (200, TaskListJson ts) \<and> mset ts = mset (rows db) \<and> newest_first ts)
       \<and> (\<forall>b1 b2 b3 n1 n2 n3.
            rows db = [] \<and> truthy (body_title b1) \<and> truthy (body_title b2) \<and> truthy (body_title b3)
            \<and> n1 < n2 \<and> n2 < n3 \<longrightarrow>
            (\<exists>T1 T2 T3.
               snd (post_task db n1 b1) = (201, TaskJson T1)
               \<and> snd (post_task (fst (post_task db n1 b1)) n2 b2) = (201, TaskJson T2)
               \<and> snd (post_task (fst (post_task (fst (post_task db n1 b1)) n2 b2)) n3 b3)
                   = (201, TaskJson T3)
               \<and> get_tasks (fst (post_task (fst (post_task (fst (post_task db n1 b1)) n2 b2)) n3 b3))
                   = (200, TaskListJson [T3, T2, T1])))"
proof (intro conjI allI impI)
  show "\<exists>ts. get_tasks db = (200, TaskListJson ts) \<and> mset ts = mset (rows db) \<and> newest_first ts"
    using assms by (simp add: get_tasks_working select_all_newest_first)
next
  fix b1 b2 b3 :: req_body and n1 n2 n3 :: nat
  assume h: "rows db = [] \<and> truthy (body_title b1) \<and> truthy (body_title b2) \<and> truthy (body_title b3)
            \<and> n1 < n2 \<and> n2 < n3"
  let ?p1 = "post_task db n1 b1"
  let ?p2 = "post_task (fst ?p1) n2 b2"
  let ?p3 = "post_task (fst ?p2) n3 b3"
  have "\<exists>T1 T2 T3. snd ?p1 = (201, TaskJson T1) \<and> snd ?p2 = (201, TaskJson T2) \<and> snd ?p3 = (201, TaskJson T3)
           \<and> created_at T1 = n1 \<and> created_at T2 = n2 \<and> created_at T3 = n3
           \<and> get_tasks (fst ?p3) = (200, TaskListJson [T3, T2, T1])"
    using assms h
    by (intro three_inserts_listed [of db b1 b2 b3 n1 "fst ?p1" _ n2 "fst ?p2" _ n3 "fst ?p3"]) simp_all
  then show "\<exists>T1 T2 T3. snd ?p1 = (201, TaskJson T1) \<and> snd ?p2 = (201, TaskJson T2) \<and> snd ?p3 = (201, TaskJson T3)
           \<and> get_tasks (fst ?p3) = (200, TaskListJson [T3, T2, T1])"
    by blast
qed

theorem list_newest_first_witness:
  "fault empty_storage = None \<and> rows empty_storage = []
   \<and> truthy (body_title buy_milk) \<and> truthy (body_title walk_dog) \<and> truthy (body_title pay_rent)
   \<and> (1::nat) < 2 \<and> (2::nat) < 3
   \<and> get_tasks empty_storage = (200, TaskListJson [])
   \<and> get_tasks
        (fst (post_task (fst (post_task (fst (post_task empty_storage 1 buy_milk)) 2 walk_dog))
           3 pay_rent))
       = (200, TaskListJson
           [rent_row\<lparr>created_at := 3, updated_at := 3\<rparr>,
            dog_row\<lparr>created_at := 2, updated_at := 2\<rparr>,
            milk_row\<lparr>created_at := 1, updated_at := 1\<rparr>])"
proof -
  have up: "fault empty_storage = None" and empty: "rows empty_storage = []"
    by (simp_all add: empty_storage_def)
  have valid: "truthy (body_title buy_milk)" "truthy (body_title walk_dog)"
      "truthy (body_title pay_rent)"
    by (simp_all add: buy_milk_def walk_dog_def pay_rent_def)
  let ?p1 = "post_task empty_storage 1 buy_milk"
  let ?p2 = "post_task (fst ?p1) 2 walk_dog"
  let ?p3 = "post_task (fst ?p2) 3 pay_rent"
  have s1: "snd ?p1 = (201, TaskJson (milk_row\<lparr>created_at := 1, updated_at := 1\<rparr>))"
    by (simp add: empty_storage_def buy_milk_def milk_row_def post_task_def insert_task_def
        select_by_id_def first_row_def)
  have s2: "snd ?p2 = (201, TaskJson (dog_row\<lparr>created_at := 2, updated_at := 2\<rparr>))"
    by (simp add: empty_storage_def buy_milk_def walk_dog_def dog_row_def post_task_def
        insert_task_def select_by_id_def first_row_def)
  have s3: "snd ?p3 = (201, TaskJson (rent_row\<lparr>created_at := 3, updated_at := 3\<rparr>))"
    by (simp add: empty_storage_def buy_milk_def walk_dog_def pay_rent_def rent_row_def
        post_task_def insert_task_def select_by_id_def first_row_def)
  have none: "get_tasks empty_storage = (200, TaskListJson [])"
    using list_newest_first [OF up] empty by auto
  have "\<exists>T1 T2 T3. snd ?p1 = (201, TaskJson T1) \<and> snd ?p2 = (201, TaskJson T2)
      \<and> snd ?p3 = (201, TaskJson T3)
      \<and> get_tasks (fst ?p3) = (200, TaskListJson [T3, T2, T1])"
    using list_newest_first [OF up, THEN conjunct2, rule_format, of buy_milk walk_dog pay_rent 1 2 3]
      empty valid by simp
  then obtain T1 T2 T3 where
    t: "snd ?p1 = (201, TaskJson T1)" "snd ?p2 = (201, TaskJson T2)"
      "snd ?p3 = (201, TaskJson T3)"
    and listed: "get_tasks (fst ?p3) = (200, TaskListJson [T3, T2, T1])"
    by blast
  have "T1 = milk_row\<lparr>created_at := 1, updated_at := 1\<rparr>"
    and "T2 = dog_row\<lparr>created_at := 2, updated_at := 2\<rparr>"
    and "T3 = rent_row\<lparr>created_at := 3, updated_at := 3\<rparr>"
    using t unfolding s1 s2 s3 by simp_all
  with listed have "get_tasks (fst ?p3) = (200, TaskListJson
           [rent_row\<lparr>created_at := 3, updated_at := 3\<rparr>,
            dog_row\<lparr>created_at := 2, updated_at := 2\<rparr>,
            milk_row\<lparr>created_at := 1, updated_at := 1\<rparr>])"
    by simp
  with up empty valid none show ?thesis
    by simp
qed

text \<open>
  Against C4 as stated. Three valid creates at one clock reading: T1, T2 and T3 have equal
  \<^verbatim>\<open>created_at\<close>, the listing [T1, T2, T3] is in non-increasing
  \<^verbatim>\<open>created_at\<close> order, and it is the listing returned, not [T3, T2, T1].
\<close>

theorem list_order_counterexample:
  "snd (post_task empty_storage 5 buy_milk) = (201, TaskJson milk_row)
   \<and> snd (post_task one_task 5 walk_dog) = (201, TaskJson dog_row)
   \<and> snd (post_task two_tasks 5 pay_rent) = (201, TaskJson rent_row)
   \<and> get_tasks three_tasks = (200, TaskListJson [milk_row, dog_row, rent_row])
   \<and> get_tasks three_tasks \<noteq> (200, TaskListJson [rent_row, dog_row, milk_row])
   \<and> newest_first [milk_row, dog_row, rent_row]
   \<and> mset [milk_row, dog_row, rent_row] = mset (rows three_tasks)"
  by (simp add: three_tasks_eq two_tasks_eq one_task_eq empty_storage_def buy_milk_def
      walk_dog_def pay_rent_def milk_row_def dog_row_def rent_row_def post_task_def
      insert_task_def select_by_id_def first_row_def get_tasks_def select_all_def
      newest_first_def)

section \<open>The invariant of the data model\<close>

text \<open>
  C7. Every stored row should have a status among the three enumerated values, an
  assigned id and a non-empty title. Create checks the title; update writes the
  three fields of the body unchecked. On the storage holding the valid task 1
  ("Buy milk", pending): an update whose title is the empty string is answered
  with 200 and leaves task 1 with an empty title, where the same body is refused
  by create with 400; the update the status-change shortcut of the controller
  issues, a body with only a status, is answered with 200 and leaves task 1 with
  a NULL title; an update with only a title leaves it with a NULL status.
\<close>

theorem update_breaks_invariant:
  "list_all task_valid (rows one_task)
   \<and> post_task one_task 9 blank_title = (one_task, (400, ErrorJson ''Title is required''))
   \<and> put_task one_task 9 1 blank_title =
       (\<lparr>rows = [\<lparr>task_id = 1, title = Some [], description = Some ''2 litres'',
                   status = Some ''pending'', created_at = 5, updated_at = 9\<rparr>],
          auto_increment = 2, fault = None\<rparr>,
        (200, TaskJson \<lparr>task_id = 1, title = Some [], description = Some ''2 litres'',
                   status = Some ''pending'', created_at = 5, updated_at = 9\<rparr>))
   \<and> \<not> list_all task_valid (rows (fst (put_task one_task 9 1 blank_title)))
   \<and> snd (handleStatusChange (axios_put one_task 9) two_cards 1 ''completed'')
        = [ApiPut 1 (status_only ''completed'')]
   \<and> put_task one_task 9 1 (status_only ''completed'') =
       (\<lparr>rows = [\<lparr>task_id = 1, title = None, description = None,
                   status = Some ''completed'', created_at = 5, updated_at = 9\<rparr>],
          auto_increment = 2, fault = None\<rparr>,
        (200, TaskJson \<lparr>task_id = 1, title = None, description = None,
                   status = Some ''completed'', created_at = 5, updated_at = 9\<rparr>))
   \<and> \<not> list_all task_valid (rows (fst (put_task one_task 9 1 (status_only ''completed''))))
   \<and> \<not> list_all task_valid
         (rows (fst (put_task one_task 9 1
            \<lparr>body_title = JString ''Buy oat milk'', body_description = JUndefined,
              body_status = JUndefined\<rparr>)))"
  by (simp add: one_task_eq task_valid_def status_only_def blank_title_def put_task_def
      post_task_def update_task_def select_by_id_def first_row_def write_row_def
      handleStatusChange_def updateTask_def axios_put_def)

section \<open>Controller: status change\<close>

text \<open>
  C8. For an id shown in the task list, the status-change shortcut issues one
  update request whose body has only the status. When the request succeeds, the
  new state differs from the old one in the task list only: the list has the same
  length, every position that held a task with the id holds the returned task,
  every other position holds what it held, and the returned task is in the list.
  When the request fails, the new state is the old one with the error set.
\<close>

theorem status_change_in_place:
  assumes "i \<in> task_id ` set (tasks st)"
  shows "snd (handleStatusChange api_put st i s) = [ApiPut i (status_only s)]
       \<and> body_title (status_only s) = JUndefined
       \<and> body_description (status_only s) = JUndefined
       \<and> body_status (status_only s) = JString s
       \<and> (\<forall>u. api_put i (status_only s) = Inr u \<longrightarrow>
            fst (handleStatusChange api_put st i s) =
              st\<lparr>tasks := tasks (fst (handleStatusChange api_put st i s))\<rparr>
            \<and> length (tasks (fst (handleStatusChange api_put st i s))) = length (tasks st)
            \<and> (\<forall>k < length (tasks st).
                  tasks (fst (handleStatusChange api_put st i s)) ! k =
                    (if task_id (tasks st ! k) = i then u else tasks st ! k))
            \<and> u \<in> set (tasks (fst (handleStatusChange api_put st i s))))
       \<and> (\<forall>e. api_put i (status_only s) = Inl e \<longrightarrow>
            fst (handleStatusChange api_put st i s) =
              st\<lparr>error := Some ''Failed to update task status''\<rparr>)"
proof -
  have calls: "snd (handleStatusChange api_put st i s) = [ApiPut i (status_only s)]"
    by (simp add: handleStatusChange_def updateTask_def split: sum.splits)
  have body: "body_title (status_only s) = JUndefined"
    "body_description (status_only s) = JUndefined"
    "body_status (status_only s) = JString s"
    by (simp_all add: status_only_def)
  have success: "fst (handleStatusChange api_put st i s) =
        st\<lparr>tasks := tasks (fst (handleStatusChange api_put st i s))\<rparr>
      \<and> length (tasks (fst (handleStatusChange api_put st i s))) = length (tasks st)
      \<and> (\<forall>k < length (tasks st).
            tasks (fst (handleStatusChange api_put st i s)) ! k =
              (if task_id (tasks st ! k) = i then u else tasks st ! k))
      \<and> u \<in> set (tasks (fst (handleStatusChange api_put st i s)))"
    if ok: "api_put i (status_only s) = Inr u" for u
  proof -
    have st': "fst (handleStatusChange api_put st i s) =
        st\<lparr>tasks := map (\<lambda>task. if task_id task = i then u else task) (tasks st)\<rparr>"
      using ok by (simp add: handleStatusChange_def updateTask_def)
    have "u \<in> set (map (\<lambda>task. if task_id task = i then u else task) (tasks st))"
      using assms by force
    then show ?thesis
      by (simp add: st')
  qed
  have failure: "fst (handleStatusChange api_put st i s) =
      st\<lparr>error := Some ''Failed to update task status''\<rparr>"
    if "api_put i (status_only s) = Inl e" for e
    using that by (simp add: handleStatusChange_def updateTask_def)
  show ?thesis
    using calls body success failure by blast
qed

theorem status_change_in_place_witness:
  "1 \<in> task_id ` set (tasks two_cards)
   \<and> axios_put two_tasks 9 1 (status_only ''completed'') = Inr (milk_row\<lparr>title := None, status := Some ''completed'', updated_at := 9\<rparr>)
   \<and> handleStatusChange (axios_put two_tasks 9) two_cards 1 ''completed'' =
        (two_cards\<lparr>tasks := [dog_row, milk_row\<lparr>title := None, status := Some ''completed'', updated_at := 9\<rparr>]\<rparr>,
         [ApiPut 1 (status_only ''completed'')])
   \<and> axios_put empty_storage 9 1 (status_only ''completed'') = Inl ''Request failed''
   \<and> handleStatusChange (axios_put empty_storage 9) two_cards 1 ''completed'' =
        (two_cards\<lparr>error := Some ''Failed to update task status''\<rparr>,
         [ApiPut 1 (status_only ''completed'')])"
proof -
  have shown: "1 \<in> task_id ` set (tasks two_cards)"
    by (simp add: two_cards_def milk_row_def)
  have ok: "axios_put two_tasks 9 1 (status_only ''completed'') =
      Inr (milk_row\<lparr>title := None, status := Some ''completed'', updated_at := 9\<rparr>)"
    by (simp add: axios_put_def two_tasks_eq status_only_def milk_row_def put_task_def
        update_task_def select_by_id_def first_row_def write_row_def)
  have rejected: "axios_put empty_storage 9 1 (status_only ''completed'') = Inl ''Request failed''"
    by (simp add: axios_put_def empty_storage_def status_only_def put_task_def update_task_def)
  let ?done = "handleStatusChange (axios_put two_tasks 9) two_cards 1 ''completed''"
  let ?failed = "handleStatusChange (axios_put empty_storage 9) two_cards 1 ''completed''"
  note success = status_change_in_place [OF shown, of "axios_put two_tasks 9" "''completed''"]
  note failure = status_change_in_place [OF shown, of "axios_put empty_storage 9" "''completed''"]
  have nth: "\<forall>k < length (tasks two_cards).
      tasks (fst ?done) ! k =
        (if task_id (tasks two_cards ! k) = 1
         then milk_row\<lparr>title := None, status := Some ''completed'', updated_at := 9\<rparr>
         else tasks two_cards ! k)"
    and len: "length (tasks (fst ?done)) = length (tasks two_cards)"
    and frame: "fst ?done = two_cards\<lparr>tasks := tasks (fst ?done)\<rparr>"
    using success ok by simp_all
  have "tasks (fst ?done) ! 0 = dog_row" and "tasks (fst ?done) ! 1 =
      milk_row\<lparr>title := None, status := Some ''completed'', updated_at := 9\<rparr>"
    using nth by (simp_all add: two_cards_def dog_row_def milk_row_def)
  moreover have "length (tasks (fst ?done)) = 2"
    using len by (simp add: two_cards_def)
  ultimately have "tasks (fst ?done) =
      [dog_row, milk_row\<lparr>title := None, status := Some ''completed'', updated_at := 9\<rparr>]"
    by (intro nth_equalityI) (auto simp: less_Suc_eq numeral_2_eq_2)
  with frame have "fst ?done =
      two_cards\<lparr>tasks := [dog_row, milk_row\<lparr>title := None, status := Some ''completed'', updated_at := 9\<rparr>]\<rparr>"
    by simp
  moreover have "snd ?done = [ApiPut 1 (status_only ''completed'')]"
    using success by simp
  moreover have "fst ?failed = two_cards\<lparr>error := Some ''Failed to update task status''\<rparr>"
    using failure rejected by simp
  moreover have "snd ?failed = [ApiPut 1 (status_only ''completed'')]"
    using failure by simp
  ultimately show ?thesis
    using shown ok rejected by (simp add: prod_eq_iff)
qed

section \<open>Controller: delete\<close>

text \<open>
  C9. When the user declines the confirmation prompt, the delete handler issues
  no request and returns the state as it was. When the user accepts, it issues
  one delete request for the id; when that fails, the new state is the old one
  with the error set; when it succeeds, the new state is the old one with the
  tasks of that id filtered out of the list, which, the ids in the list being
  distinct and the id among them, removes exactly one element and keeps the
  others in order.
\<close>

theorem delete_needs_confirmation:
  "(\<not> confirm ''Are you sure you want to delete this task?'' \<longrightarrow>
      handleDeleteTask confirm api_delete st i = (st, []))
   \<and> (confirm ''Are you sure you want to delete this task?'' \<longrightarrow>
        snd (handleDeleteTask confirm api_delete st i) = [ApiDelete i]
        \<and> (\<forall>e. api_delete i = Inl e \<longrightarrow>
              fst (handleDeleteTask confirm api_delete st i) =
                st\<lparr>error := Some ''Failed to delete task''\<rparr>)
        \<and> (api_delete i = Inr () \<longrightarrow>
              fst (handleDeleteTask confirm api_delete st i) =
                st\<lparr>tasks := filter (\<lambda>task. task_id task \<noteq> i) (tasks st)\<rparr>
              \<and> (distinct (map task_id (tasks st)) \<and> i \<in> task_id ` set (tasks st) \<longrightarrow>
                   (\<exists>xs t ys. tasks st = xs @ t # ys \<and> task_id t = i
                      \<and> tasks (fst (handleDeleteTask confirm api_delete st i)) = xs @ ys))))"
proof -
  have declined: "handleDeleteTask confirm api_delete st i = (st, [])"
    if "\<not> confirm ''Are you sure you want to delete this task?''"
    using that by (simp add: handleDeleteTask_def)
  have calls: "snd (handleDeleteTask confirm api_delete st i) = [ApiDelete i]"
    if "confirm ''Are you sure you want to delete this task?''"
    using that by (simp add: handleDeleteTask_def deleteTask_def split: sum.splits)
  have failed: "fst (handleDeleteTask confirm api_delete st i) =
      st\<lparr>error := Some ''Failed to delete task''\<rparr>"
    if "confirm ''Are you sure you want to delete this task?''" and "api_delete i = Inl e" for e
    using that by (simp add: handleDeleteTask_def deleteTask_def)
  have removed: "fst (handleDeleteTask confirm api_delete st i) =
      st\<lparr>tasks := filter (\<lambda>task. task_id task \<noteq> i) (tasks st)\<rparr>"
    if "confirm ''Are you sure you want to delete this task?''" and "api_delete i = Inr ()"
    using that by (simp add: handleDeleteTask_def deleteTask_def)
  have one: "\<exists>xs t ys. tasks st = xs @ t # ys \<and> task_id t = i
      \<and> tasks (fst (handleDeleteTask confirm api_delete st i)) = xs @ ys"
    if "confirm ''Are you sure you want to delete this task?''" and "api_delete i = Inr ()"
      and "distinct (map task_id (tasks st))" and "i \<in> task_id ` set (tasks st)"
    using filter_out_one [OF that(3,4)] removed [OF that(1,2)] by simp
  show ?thesis
    using declined calls failed removed one by blast
qed

theorem delete_needs_confirmation_witness:
  "\<not> user_declines ''Are you sure you want to delete this task?''
   \<and> handleDeleteTask user_declines (axios_delete two_tasks) two_cards 1 = (two_cards, [])
   \<and> user_accepts ''Are you sure you want to delete this task?''
   \<and> axios_delete two_tasks 1 = Inr ()
   \<and> distinct (map task_id (tasks two_cards)) \<and> 1 \<in> task_id ` set (tasks two_cards)
   \<and> handleDeleteTask user_accepts (axios_delete two_tasks) two_cards 1 =
        (two_cards\<lparr>tasks := [dog_row]\<rparr>, [ApiDelete 1])
   \<and> axios_delete empty_storage 1 = Inl ''Request failed''
   \<and> handleDeleteTask user_accepts (axios_delete empty_storage) two_cards 1 =
        (two_cards\<lparr>error := Some ''Failed to delete task''\<rparr>, [ApiDelete 1])"
proof -
  have no: "\<not> user_declines ''Are you sure you want to delete this task?''"
    by (simp add: user_declines_def)
  have yes: "user_accepts ''Are you sure you want to delete this task?''"
    by (simp add: user_accepts_def)
  have ok: "axios_delete two_tasks 1 = Inr ()"
    by (simp add: axios_delete_def two_tasks_eq delete_task_def delete_from_def)
  have rejected: "axios_delete empty_storage 1 = Inl ''Request failed''"
    by (simp add: axios_delete_def empty_storage_def delete_task_def delete_from_def)
  have ids: "distinct (map task_id (tasks two_cards))" "1 \<in> task_id ` set (tasks two_cards)"
    by (simp_all add: two_cards_def dog_row_def milk_row_def)
  have kept: "filter (\<lambda>task. task_id task \<noteq> 1) (tasks two_cards) = [dog_row]"
    by (simp add: two_cards_def dog_row_def milk_row_def)
  have "handleDeleteTask user_declines (axios_delete two_tasks) two_cards 1 = (two_cards, [])"
    using delete_needs_confirmation [of user_declines "axios_delete two_tasks" two_cards 1] no
    by simp
  moreover have "handleDeleteTask user_accepts (axios_delete two_tasks) two_cards 1 =
      (two_cards\<lparr>tasks := [dog_row]\<rparr>, [ApiDelete 1])"
    using delete_needs_confirmation [of user_accepts "axios_delete two_tasks" two_cards 1]
      yes ok kept
    by (simp add: prod_eq_iff)
  moreover have "handleDeleteTask user_accepts (axios_delete empty_storage) two_cards 1 =
      (two_cards\<lparr>error := Some ''Failed to delete task''\<rparr>, [ApiDelete 1])"
    using delete_needs_confirmation [of user_accepts "axios_delete empty_storage" two_cards 1]
      yes rejected
    by (simp add: prod_eq_iff)
  ultimately show ?thesis
    using no yes ok rejected ids by simp
qed

section \<open>Controller: edit without a target\<close>

text \<open>
  C10. When no task is being edited, the edit handler returns at once: it issues
  no request and the state (task list, error, form visibility, editing target
  and loading flag) is the one it was given.
\<close>

theorem edit_without_target_is_noop:
  "editingTask st = None \<Longrightarrow> handleEditTask api_put st taskData = (st, [])"
  by (simp add: handleEditTask_def)

theorem edit_without_target_is_noop_witness:
  "editingTask two_cards = None
   \<and> handleEditTask (axios_put two_tasks 9) two_cards walk_dog = (two_cards, [])"
proof -
  have idle: "editingTask two_cards = None"
    by (simp add: two_cards_def)
  show ?thesis
    using idle edit_without_target_is_noop [OF idle, of "axios_put two_tasks 9" walk_dog]
    by simp
qed

end
